theory Spec2Isabelle
  imports Complex_Main "HOL-Library.Sublist" "HOL-Library.Multiset"
begin

section \<open>JavaScript strings\<close>

text \<open>
  Strings are byte strings; the model covers the ASCII range, where
  \<^verbatim>\<open>toLowerCase\<close> maps the letters A-Z to a-z and leaves every other character as
  it is, and where the white space removed by \<^verbatim>\<open>trim\<close> and matched by the
  regular expression class \<^verbatim>\<open>\s\<close> is tab, line feed, vertical tab, form feed,
  carriage return and space.
\<close>

definition toLowerChar :: "char \<Rightarrow> char" where
  "toLowerChar c =
     (let n = (of_char c :: nat) in if 65 \<le> n \<and> n \<le> 90 then char_of (n + 32) else c)"

definition toLowerCase :: "string \<Rightarrow> string" where
  "toLowerCase s = map toLowerChar s"

definition isWhiteSpace :: "char \<Rightarrow> bool" where
  "isWhiteSpace c = (let n = (of_char c :: nat) in (9 \<le> n \<and> n \<le> 13) \<or> n = 32)"

definition trim :: "string \<Rightarrow> string" where
  "trim s = rev (dropWhile isWhiteSpace (rev (dropWhile isWhiteSpace s)))"

text \<open>\<^verbatim>\<open>text.includes(k)\<close>: \<open>k\<close> occurs in \<open>text\<close> as a contiguous substring.\<close>

definition includesStr :: "string \<Rightarrow> string \<Rightarrow> bool" where
  "includesStr text k = sublist k text"

text \<open>The word characters of a regular expression, \<^verbatim>\<open>[A-Za-z0-9_]\<close>.\<close>

definition isWordChar :: "char \<Rightarrow> bool" where
  "isWordChar c =
     (let n = (of_char c :: nat)
      in (48 \<le> n \<and> n \<le> 57) \<or> (65 \<le> n \<and> n \<le> 90) \<or> n = 95 \<or> (97 \<le> n \<and> n \<le> 122))"

text \<open>
  \<^verbatim>\<open>/\bdu\s/i.test(text)\<close>: somewhere in the text, at a word boundary, the letters
  d and u in either case, then a white space character. The first argument tells
  whether the character before the current position is a word character.
\<close>

fun re_bdu_s :: "bool \<Rightarrow> string \<Rightarrow> bool" where
  "re_bdu_s prevWord (c1 # c2 # c3 # rest) =
     ((\<not> prevWord \<and> toLowerChar c1 = CHR ''d'' \<and> toLowerChar c2 = CHR ''u'' \<and> isWhiteSpace c3)
      \<or> re_bdu_s (isWordChar c1) (c2 # c3 # rest))"
| "re_bdu_s prevWord cs = False"

text \<open>
  \<^verbatim>\<open>/\sdu\b/i.test(text)\<close>: a white space character, the letters d and u in
  either case, then a word boundary (the end of the text or a non-word character).
\<close>

fun re_sdu_b :: "string \<Rightarrow> bool" where
  "re_sdu_b (c1 # c2 # c3 # rest) =
     ((isWhiteSpace c1 \<and> toLowerChar c2 = CHR ''d'' \<and> toLowerChar c3 = CHR ''u''
         \<and> (case rest of [] \<Rightarrow> True | c4 # cs \<Rightarrow> \<not> isWordChar c4))
      \<or> re_sdu_b (c2 # c3 # rest))"
| "re_sdu_b cs = False"

section \<open>JavaScript objects as property lists\<close>

text \<open>
  A plain object used as a dictionary is the list of its own properties in the order
  of their creation. \<^verbatim>\<open>Object.entries\<close> and \<^verbatim>\<open>Object.keys\<close> enumerate the keys
  that are array indices (canonical decimal numerals below \<open>2^32 - 1\<close>) first, in
  ascending numeric order, and then all other keys in creation order.
\<close>

definition isDigit :: "char \<Rightarrow> bool" where
  "isDigit c = (let n = (of_char c :: nat) in 48 \<le> n \<and> n \<le> 57)"

definition decimalValue :: "string \<Rightarrow> int" where
  "decimalValue s = foldl (\<lambda>acc c. 10 * acc + (of_char c - 48)) 0 s"

definition isArrayIndex :: "string \<Rightarrow> bool" where
  "isArrayIndex k =
     (k \<noteq> [] \<and> list_all isDigit k \<and> (if hd k = CHR ''0'' then length k = 1 else True)
      \<and> length k \<le> 10 \<and> decimalValue k < 4294967295)"

definition objectEntries :: "(string \<times> 'v) list \<Rightarrow> (string \<times> 'v) list" where
  "objectEntries obj =
     sort_key (\<lambda>p. decimalValue (fst p)) (filter (\<lambda>p. isArrayIndex (fst p)) obj)
     @ filter (\<lambda>p. \<not> isArrayIndex (fst p)) obj"

section \<open>JavaScript dates\<close>

text \<open>
  A \<^verbatim>\<open>Date\<close> is its time value, the milliseconds since the epoch in UTC, and the
  calendar functions are those of the ECMAScript specification (the proleptic
  Gregorian calendar). Local time is UTC shifted by a fixed offset \<open>tza\<close> of the
  environment in milliseconds (a zone without daylight saving, as Asia/Dubai is).
\<close>

definition msPerDay :: int where
  "msPerDay = 86400000"

definition Day :: "int \<Rightarrow> int" where
  "Day t = t div msPerDay"

definition TimeWithinDay :: "int \<Rightarrow> int" where
  "TimeWithinDay t = t mod msPerDay"

definition DayFromYear :: "int \<Rightarrow> int" where
  "DayFromYear y =
     365 * (y - 1970) + (y - 1969) div 4 - (y - 1901) div 100 + (y - 1601) div 400"

definition DaysInYear :: "int \<Rightarrow> int" where
  "DaysInYear y =
     (if y mod 4 \<noteq> 0 then 365 else if y mod 100 \<noteq> 0 then 366
      else if y mod 400 \<noteq> 0 then 365 else 366)"

text \<open>
  \<^verbatim>\<open>YearFromTime\<close> is the largest year whose first day is not after the given
  day. It is computed from an estimate that is off by at most one year.
\<close>

definition YearFromDay :: "int \<Rightarrow> int" where
  "YearFromDay d =
     (let y = 1970 + (400 * d) div 146097
      in if d < DayFromYear y then y - 1
         else if DayFromYear (y + 1) \<le> d then y + 1
         else y)"

definition YearFromTime :: "int \<Rightarrow> int" where
  "YearFromTime t = YearFromDay (Day t)"

definition InLeapYear :: "int \<Rightarrow> int" where
  "InLeapYear t = (if DaysInYear (YearFromTime t) = 366 then 1 else 0)"

definition DayWithinYear :: "int \<Rightarrow> int" where
  "DayWithinYear t = Day t - DayFromYear (YearFromTime t)"

text \<open>The day within the year on which month \<open>m\<close> (0 to 11) starts.\<close>

definition monthStart :: "int \<Rightarrow> int \<Rightarrow> int" where
  "monthStart leap m =
     (if m = 0 then 0 else if m = 1 then 31 else if m = 2 then 59 + leap
      else if m = 3 then 90 + leap else if m = 4 then 120 + leap
      else if m = 5 then 151 + leap else if m = 6 then 181 + leap
      else if m = 7 then 212 + leap else if m = 8 then 243 + leap
      else if m = 9 then 273 + leap else if m = 10 then 304 + leap
      else 334 + leap)"

definition MonthFromTime :: "int \<Rightarrow> int" where
  "MonthFromTime t =
     (let d = DayWithinYear t; leap = InLeapYear t
      in if d < 31 then 0 else if d < 59 + leap then 1 else if d < 90 + leap then 2
         else if d < 120 + leap then 3 else if d < 151 + leap then 4
         else if d < 181 + leap then 5 else if d < 212 + leap then 6
         else if d < 243 + leap then 7 else if d < 273 + leap then 8
         else if d < 304 + leap then 9 else if d < 334 + leap then 10
         else 11)"

definition DateFromTime :: "int \<Rightarrow> int" where
  "DateFromTime t = DayWithinYear t - monthStart (InLeapYear t) (MonthFromTime t) + 1"

text \<open>
  \<^verbatim>\<open>MakeDay(year, month, date)\<close>: months beyond 0 to 11 carry into the year, and
  the date counts on from the first of the month, so a date beyond the end of the
  month runs into the following month.
\<close>

definition MakeDay :: "int \<Rightarrow> int \<Rightarrow> int \<Rightarrow> int" where
  "MakeDay year month dt =
     (let ym = year + month div 12; mn = month mod 12
      in DayFromYear ym + monthStart (if DaysInYear ym = 366 then 1 else 0) mn + dt - 1)"

definition MakeDate :: "int \<Rightarrow> int \<Rightarrow> int" where
  "MakeDate day time = day * msPerDay + time"

record env =
  now :: int
  tza :: int

definition LocalTime :: "env \<Rightarrow> int \<Rightarrow> int" where
  "LocalTime e t = t + tza e"

definition UTC :: "env \<Rightarrow> int \<Rightarrow> int" where
  "UTC e t = t - tza e"

definition getFullYear :: "env \<Rightarrow> int \<Rightarrow> int" where
  "getFullYear e t = YearFromTime (LocalTime e t)"

definition getMonth :: "env \<Rightarrow> int \<Rightarrow> int" where
  "getMonth e t = MonthFromTime (LocalTime e t)"

definition getDate :: "env \<Rightarrow> int \<Rightarrow> int" where
  "getDate e t = DateFromTime (LocalTime e t)"

text \<open>\<^verbatim>\<open>new Date(year, monthIndex, day)\<close>: local midnight of that day.\<close>

definition newDateYMD :: "env \<Rightarrow> int \<Rightarrow> int \<Rightarrow> int \<Rightarrow> int" where
  "newDateYMD e year month dt =
     (let yr = (if 0 \<le> year \<and> year \<le> 99 then 1900 + year else year)
      in UTC e (MakeDate (MakeDay yr month dt) 0))"

definition setMonth :: "env \<Rightarrow> int \<Rightarrow> int \<Rightarrow> int \<Rightarrow> int" where
  "setMonth e t month dt =
     (let lt = LocalTime e t
      in UTC e (MakeDate (MakeDay (YearFromTime lt) month dt) (TimeWithinDay lt)))"

definition setFullYear :: "env \<Rightarrow> int \<Rightarrow> int \<Rightarrow> int \<Rightarrow> int \<Rightarrow> int" where
  "setFullYear e t year month dt =
     (let lt = LocalTime e t
      in UTC e (MakeDate (MakeDay year month dt) (TimeWithinDay lt)))"

text \<open>
  \<^verbatim>\<open>addMonths(date, amount)\<close> of the date-fns library: the same day of the month
  \<open>amount\<close> months later, or the last day of that month when it is shorter.
\<close>

definition addMonths :: "env \<Rightarrow> int \<Rightarrow> int \<Rightarrow> int" where
  "addMonths e dt amount =
     (if amount = 0 then dt
      else let dayOfMonth = getDate e dt;
               endOfDesiredMonth = setMonth e dt (getMonth e dt + amount + 1) 0;
               daysInMonth = getDate e endOfDesiredMonth
           in if dayOfMonth \<ge> daysInMonth then endOfDesiredMonth
              else setFullYear e dt (getFullYear e endOfDesiredMonth)
                     (getMonth e endOfDesiredMonth) dayOfMonth)"

text \<open>
  The \<^verbatim>\<open>date\<close> of an invoice is a calendar date in the ISO form
  \<^verbatim>\<open>YYYY-MM-DD\<close>, held here as its three numbers (month 1 to 12).
  \<^verbatim>\<open>new Date("YYYY-MM-DD")\<close> is midnight UTC of that day.
\<close>

datatype isodate = IsoDate int int int

fun parseDate :: "isodate \<Rightarrow> int" where
  "parseDate (IsoDate y m d) = MakeDate (MakeDay y (m - 1) d) 0"

section \<open>JavaScript numbers\<close>

text \<open>
  A Number is an IEEE 754 double: a finite value, which is a rational, an infinity, or
  NaN. The two zeros are one value here (they are equal under \<^verbatim>\<open>===\<close>).
\<close>

datatype number = Finite rat | PosInfinity | NegInfinity | NaN

text \<open>The position of the leading bit of a positive integer.\<close>

function ilog2 :: "int \<Rightarrow> int" where
  "ilog2 n = (if n \<le> 1 then 0 else 1 + ilog2 (n div 2))"
  by pat_completeness auto
termination
  by (relation "measure nat") auto

definition pow2 :: "int \<Rightarrow> rat" where
  "pow2 k = (if 0 \<le> k then 2 ^ nat k else 1 / 2 ^ nat (- k))"

text \<open>The binary exponent of a positive rational \<open>a\<close>: \<open>pow2 e \<le> a < pow2 (e + 1)\<close>.\<close>

definition floorLog2 :: "rat \<Rightarrow> int" where
  "floorLog2 a =
     (let (p, q) = quotient_of a; e = ilog2 p - ilog2 q
      in if pow2 e \<le> a then e else e - 1)"

definition roundHalfEven :: "rat \<Rightarrow> int" where
  "roundHalfEven x =
     (let f = \<lfloor>x\<rfloor>; r = x - of_int f
      in if r < 1 / 2 then f else if 1 / 2 < r then f + 1
         else if even f then f else f + 1)"

text \<open>
  The Number nearest to a rational, ties to the even significand: 53 bits of
  significand, the exponent from -1022 (below which the spacing stays that of the
  subnormal numbers) to 1023 (beyond which the result is an infinity). This is the
  value that \<^verbatim>\<open>JSON.parse\<close> gives a decimal literal and the rounding of every
  arithmetic result.
\<close>

definition toNumber :: "rat \<Rightarrow> number" where
  "toNumber q =
     (if q = 0 then Finite 0
      else let a = \<bar>q\<bar>; e = max (floorLog2 a) (- 1022)
           in if 1023 < e then (if 0 < q then PosInfinity else NegInfinity)
              else let ulp = pow2 (e - 52); n = roundHalfEven (a / ulp)
                   in if e = 1023 \<and> 9007199254740992 \<le> n
                      then (if 0 < q then PosInfinity else NegInfinity)
                      else Finite (if 0 < q then of_int n * ulp else - (of_int n * ulp)))"

text \<open>\<^verbatim>\<open>x + y\<close> on Numbers: the exact sum, rounded.\<close>

fun num_add :: "number \<Rightarrow> number \<Rightarrow> number" where
  "num_add (Finite a) (Finite b) = toNumber (a + b)"
| "num_add NaN y = NaN"
| "num_add x NaN = NaN"
| "num_add PosInfinity NegInfinity = NaN"
| "num_add NegInfinity PosInfinity = NaN"
| "num_add PosInfinity y = PosInfinity"
| "num_add NegInfinity y = NegInfinity"
| "num_add x PosInfinity = PosInfinity"
| "num_add x NegInfinity = NegInfinity"

text \<open>
  \<^verbatim>\<open>x / y\<close> on Numbers: the exact quotient, rounded; a zero divisor counts as
  positive.
\<close>

fun num_div :: "number \<Rightarrow> number \<Rightarrow> number" where
  "num_div (Finite a) (Finite b) =
     (if b = 0 then (if a = 0 then NaN else if 0 < a then PosInfinity else NegInfinity)
      else toNumber (a / b))"
| "num_div NaN y = NaN"
| "num_div x NaN = NaN"
| "num_div PosInfinity (Finite b) = (if 0 \<le> b then PosInfinity else NegInfinity)"
| "num_div NegInfinity (Finite b) = (if 0 \<le> b then NegInfinity else PosInfinity)"
| "num_div (Finite a) y = Finite 0"
| "num_div x y = NaN"

section \<open>The recurring expense analyzer\<close>

datatype invoice_status = Ok | NeedsReview

text \<open>
  The \<^verbatim>\<open>Invoice\<close> of the dashboard. A field that may be \<^verbatim>\<open>null\<close> is an option;
  for \<open>date\<close>, \<open>None\<close> stands for \<^verbatim>\<open>null\<close> and for the empty string, the two
  values that the analyzer's test \<^verbatim>\<open>!inv.date\<close> rejects. The \<open>amount\<close> is the decimal that the
  JSON payload holds; the analyzer sees the Number \<open>toNumber\<close> of it.
\<close>

record Invoice =
  inv_id :: int
  vendor :: "string option"
  amount :: "rat option"
  currency :: "string option"
  date :: "isodate option"
  status :: invoice_status
  is_paid :: "bool option"
  category :: "string option"
  created_at :: "string option"

text \<open>
  The \<^verbatim>\<open>RecurringExpense\<close> of the dashboard; \<open>re_vendor\<close>, \<open>re_category\<close> and
  \<open>re_type\<close> are its fields \<^verbatim>\<open>vendor\<close>, \<^verbatim>\<open>category\<close> and \<^verbatim>\<open>type\<close>.
\<close>

record RecurringExpense =
  re_vendor :: string
  avgAmount :: number
  dayOfMonth :: int
  frequency :: nat
  lastDate :: "isodate option"
  re_category :: "string option"
  nextExpected :: int
  re_type :: "string option"

definition UTILITY_KEYWORDS :: "string list" where
  "UTILITY_KEYWORDS =
     [''dewa'', ''sewa'', ''fewa'', ''addc'', ''electricity'', ''water'', ''power'']"

definition TELECOM_KEYWORDS :: "string list" where
  "TELECOM_KEYWORDS = [''etisalat'', ''virgin mobile'']"

definition SUBSCRIPTION_KEYWORDS :: "string list" where
  "SUBSCRIPTION_KEYWORDS =
     [''microsoft 365'', ''microsoft'', ''google workspace'', ''adobe'', ''slack'', ''zoom'',
      ''aws'', ''azure'', ''dropbox'', ''notion'', ''figma'', ''github'', ''atlassian'',
      ''jira'', ''hubspot'', ''salesforce'', ''spotify'', ''netflix'', ''office 365'']"

definition INSURANCE_KEYWORDS :: "string list" where
  "INSURANCE_KEYWORDS = [''insurance'', ''takaful'']"

definition RENT_KEYWORDS :: "string list" where
  "RENT_KEYWORDS = [''rent'', ''lease'', ''tenancy'']"

definition EXCLUDE_KEYWORDS :: "string list" where
  "EXCLUDE_KEYWORDS =
     [''gdrfa'', ''amer'', ''tas-heel'', ''tasheel'', ''dha'', ''rta'', ''traffic'', ''fine'',
      ''penalty'', ''visa'', ''emirates id'', ''license'', ''registration'', ''government'',
      ''ministry'', ''municipality'', ''court'', ''legal'']"

definition getExpenseType :: "string \<Rightarrow> string option \<Rightarrow> string option" where
  "getExpenseType vend cat =
     (let text = toLowerCase (vend @ '' '' @ (case cat of None \<Rightarrow> [] | Some c \<Rightarrow> c))
      in if list_ex (\<lambda>k. includesStr text k) UTILITY_KEYWORDS then Some ''utility''
         else if list_ex (\<lambda>k. includesStr text k) TELECOM_KEYWORDS
                 \<or> re_bdu_s False text \<or> re_sdu_b text \<or> text = ''du''
           then Some ''telecom''
         else if list_ex (\<lambda>k. includesStr text k) SUBSCRIPTION_KEYWORDS then Some ''subscription''
         else if list_ex (\<lambda>k. includesStr text k) INSURANCE_KEYWORDS then Some ''insurance''
         else if list_ex (\<lambda>k. includesStr text k) RENT_KEYWORDS then Some ''rent''
         else None)"

definition isExcluded :: "string \<Rightarrow> bool" where
  "isExcluded vend =
     (let text = toLowerCase vend in list_ex (\<lambda>k. includesStr text k) EXCLUDE_KEYWORDS)"

subsection \<open>Grouping by vendor\<close>

text \<open>
  The test \<^verbatim>\<open>!inv.vendor || !inv.date || !inv.amount\<close>: a record is passed over
  when its vendor is null or empty, its date is null or empty, or its amount is null
  or zero.
\<close>

definition skipped :: "Invoice \<Rightarrow> bool" where
  "skipped invoice =
     ((case vendor invoice of None \<Rightarrow> True | Some v \<Rightarrow> v = [])
      \<or> date invoice = None
      \<or> (case amount invoice of None \<Rightarrow> True | Some a \<Rightarrow> toNumber a = Finite 0))"

text \<open>
  \<^verbatim>\<open>vendorInvoices\<close> is a plain object. Two of the names that every object
  inherits are in lower case, \<^verbatim>\<open>constructor\<close> and \<^verbatim>\<open>__proto__\<close>: for these keys
  the lookup \<^verbatim>\<open>vendorInvoices[vendor]\<close> finds the inherited value, no array is
  created, and the call of \<^verbatim>\<open>push\<close> throws a TypeError.
\<close>

datatype error = TypeError

definition inheritedKey :: "string \<Rightarrow> bool" where
  "inheritedKey k = (k = ''constructor'' \<or> k = ''__proto__'')"

fun pushTo :: "string \<Rightarrow> 'v \<Rightarrow> (string \<times> 'v list) list \<Rightarrow> (string \<times> 'v list) list" where
  "pushTo k x [] = [(k, [x])]"
| "pushTo k x ((k', xs) # rest) =
     (if k = k' then (k', xs @ [x]) # rest else (k', xs) # pushTo k x rest)"

definition vendorKey :: "Invoice \<Rightarrow> string" where
  "vendorKey invoice = (case vendor invoice of None \<Rightarrow> [] | Some v \<Rightarrow> trim (toLowerCase v))"

fun groupByVendor ::
  "(string \<times> Invoice list) list \<Rightarrow> Invoice list \<Rightarrow> error + (string \<times> Invoice list) list" where
  "groupByVendor vendorInvoices [] = Inr vendorInvoices"
| "groupByVendor vendorInvoices (invoice # rest) =
     (if skipped invoice then groupByVendor vendorInvoices rest
      else if inheritedKey (vendorKey invoice) then Inl TypeError
      else groupByVendor (pushTo (vendorKey invoice) invoice vendorInvoices) rest)"

subsection \<open>One vendor\<close>

text \<open>
  \<^verbatim>\<open>new Date(inv.date).getTime()\<close>. Records without a date never get here;
  \<^verbatim>\<open>new Date(null)\<close> is the epoch.
\<close>

definition dateTime :: "Invoice \<Rightarrow> int" where
  "dateTime invoice = (case date invoice of None \<Rightarrow> 0 | Some d \<Rightarrow> parseDate d)"

text \<open>
  \<^verbatim>\<open>dayGroups\<close> is an object whose keys are days of the month, so its keys are
  enumerated in ascending order: it is kept as a list ascending in the day.
\<close>

fun pushDay :: "int \<Rightarrow> Invoice \<Rightarrow> (int \<times> Invoice list) list \<Rightarrow> (int \<times> Invoice list) list" where
  "pushDay k invoice [] = []"
| "pushDay k invoice ((k', g) # rest) =
     (if k = k' then (k', g @ [invoice]) # rest else (k', g) # pushDay k invoice rest)"

fun assignDay :: "int \<Rightarrow> Invoice \<Rightarrow> (int \<times> Invoice list) list \<Rightarrow> (int \<times> Invoice list) list" where
  "assignDay k invoice [] = [(k, [invoice])]"
| "assignDay k invoice ((k', g) # rest) =
     (if k < k' then (k, [invoice]) # (k', g) # rest
      else if k = k' then (k', [invoice]) # rest
      else (k', g) # assignDay k invoice rest)"

definition addToDayGroups ::
  "env \<Rightarrow> (int \<times> Invoice list) list \<Rightarrow> Invoice \<Rightarrow> (int \<times> Invoice list) list" where
  "addToDayGroups e dayGroups invoice =
     (let day = getDate e (dateTime invoice);
          matchedDay = find (\<lambda>existingDay. \<bar>existingDay - day\<bar> \<le> 1) (map fst dayGroups)
      in case matchedDay of
           Some k \<Rightarrow> pushDay k invoice dayGroups
         | None \<Rightarrow> assignDay day invoice dayGroups)"

definition dayGroupsOf :: "env \<Rightarrow> Invoice list \<Rightarrow> (int \<times> Invoice list) list" where
  "dayGroupsOf e sortedInvs = foldl (addToDayGroups e) [] sortedInvs"

text \<open>
  The groups of at least 2 invoices, the largest first; the sort is stable, so
  among groups of one size the smaller day comes first.
\<close>

definition validGroupsOf :: "(int \<times> Invoice list) list \<Rightarrow> (int \<times> Invoice list) list" where
  "validGroupsOf dayGroups =
     sort_key (\<lambda>p. - int (length (snd p))) (filter (\<lambda>p. length (snd p) \<ge> 2) dayGroups)"

text \<open>\<^verbatim>\<open>Math.ceil((currDate.getTime() - prevDate.getTime()) / (1000 * 60 * 60 * 24))\<close>\<close>

definition daysDiff :: "Invoice \<Rightarrow> Invoice \<Rightarrow> int" where
  "daysDiff prevInv currInv = - ((- (dateTime currInv - dateTime prevInv)) div (1000 * 60 * 60 * 24))"

fun isMonthlyConsistent :: "Invoice list \<Rightarrow> bool" where
  "isMonthlyConsistent (prevInv # currInv # rest) =
     (if daysDiff prevInv currInv < 25 \<or> daysDiff prevInv currInv > 38 then False
      else isMonthlyConsistent (currInv # rest))"
| "isMonthlyConsistent groupSorted = True"

definition displayVendorOf :: "string \<Rightarrow> Invoice list \<Rightarrow> string" where
  "displayVendorOf vend sortedInvs =
     (case sortedInvs of [] \<Rightarrow> vend
      | invoice # rest \<Rightarrow> (case vendor invoice of None \<Rightarrow> vend | Some v \<Rightarrow> if v = [] then vend else v))"

text \<open>The group that the analyzer goes on with, and its day, if there is one.\<close>

definition selectedGroup :: "env \<Rightarrow> Invoice list \<Rightarrow> (int \<times> Invoice list) option" where
  "selectedGroup e invs =
     (case validGroupsOf (dayGroupsOf e (sort_key dateTime invs)) of
        [] \<Rightarrow> None
      | (avgDay, grp) # others \<Rightarrow> Some (avgDay, sort_key dateTime grp))"

definition nextExpectedOf :: "env \<Rightarrow> int \<Rightarrow> int" where
  "nextExpectedOf e avgDay =
     (let nextExpected = newDateYMD e (getFullYear e (now e)) (getMonth e (now e)) avgDay
      in if nextExpected \<le> now e then addMonths e nextExpected 1 else nextExpected)"

text \<open>\<^verbatim>\<open>inv.amount || 0\<close>\<close>

definition amountOrZero :: "Invoice \<Rightarrow> number" where
  "amountOrZero invoice =
     (case amount invoice of None \<Rightarrow> Finite 0
      | Some a \<Rightarrow> if toNumber a = Finite 0 then Finite 0 else toNumber a)"

text \<open>
  The body of the loop over the vendors, with the labelling function as a parameter:
  \<open>None\<close> where the body returns early, the pushed element otherwise. The selected
  group has at least 2 records, so its first and its last record exist.
\<close>

definition analyzeVendor ::
  "(string \<Rightarrow> string option \<Rightarrow> string option) \<Rightarrow> env \<Rightarrow> string \<times> Invoice list
     \<Rightarrow> RecurringExpense option" where
  "analyzeVendor typeOf e entry =
     (let vend = fst entry; invs = snd entry
      in if length invs < 2 then None
         else let sortedInvs = sort_key dateTime invs;
                  displayVendor = displayVendorOf vend sortedInvs
              in if isExcluded displayVendor then None
                 else case selectedGroup e invs of
                        None \<Rightarrow> None
                      | Some (avgDay, groupSorted) \<Rightarrow>
                          if \<not> isMonthlyConsistent groupSorted then None
                          else let amounts = map amountOrZero groupSorted;
                                   avg = num_div (foldl num_add (Finite 0) amounts)
                                           (Finite (of_nat (length amounts)));
                                   cat = category (hd groupSorted)
                               in Some \<lparr> re_vendor = displayVendor,
                                         avgAmount = avg,
                                         dayOfMonth = avgDay,
                                         frequency = length groupSorted,
                                         lastDate = date (last groupSorted),
                                         re_category = (if cat = Some [] then None else cat),
                                         nextExpected = nextExpectedOf e avgDay,
                                         re_type = typeOf displayVendor cat \<rparr>)"

definition analyzeWith ::
  "(string \<Rightarrow> string option \<Rightarrow> string option) \<Rightarrow> env \<Rightarrow> Invoice list
     \<Rightarrow> error + RecurringExpense list" where
  "analyzeWith typeOf e invoices =
     (case groupByVendor [] invoices of
        Inl err \<Rightarrow> Inl err
      | Inr vendorInvoices \<Rightarrow>
          Inr (sort_key nextExpected
                 (List.map_filter (analyzeVendor typeOf e) (objectEntries vendorInvoices))))"

definition analyzeRecurringExpenses :: "env \<Rightarrow> Invoice list \<Rightarrow> error + RecurringExpense list" where
  "analyzeRecurringExpenses e invoices = analyzeWith getExpenseType e invoices"

text \<open>Building an invoice from the four fields that the analyzer reads.\<close>

definition mkInvoice :: "int \<Rightarrow> string \<Rightarrow> rat \<Rightarrow> isodate \<Rightarrow> Invoice" where
  "mkInvoice i v a d =
     \<lparr> inv_id = i, vendor = Some v, amount = Some a, currency = Some ''AED'', date = Some d,
       status = Ok, is_paid = None, category = None, created_at = None \<rparr>"

section \<open>The invoice review page\<close>

text \<open>
  The values held in the page's state, whose type is \<^verbatim>\<open>any\<close>: the JSON values that
  the form and the API put there.
\<close>

datatype jsval = Undefined | Null | Bool bool | Num rat | Str string

definition truthy :: "jsval \<Rightarrow> bool" where
  "truthy v =
     (case v of Undefined \<Rightarrow> False | Null \<Rightarrow> False | Bool b \<Rightarrow> b
      | Num n \<Rightarrow> n \<noteq> 0 | Str s \<Rightarrow> s \<noteq> [])"

definition getProp :: "string \<Rightarrow> (string \<times> jsval) list \<Rightarrow> jsval" where
  "getProp k obj = (case map_of obj k of None \<Rightarrow> Undefined | Some v \<Rightarrow> v)"

definition hasProp :: "string \<Rightarrow> (string \<times> jsval) list \<Rightarrow> bool" where
  "hasProp k obj = (map_of obj k \<noteq> None)"

fun setProp :: "string \<Rightarrow> jsval \<Rightarrow> (string \<times> jsval) list \<Rightarrow> (string \<times> jsval) list" where
  "setProp k v [] = [(k, v)]"
| "setProp k v ((k', v') # rest) =
     (if k = k' then (k', v) # rest else (k', v') # setProp k v rest)"

text \<open>
  \<^verbatim>\<open>filledAnswers[key] = value\<close> on a plain object: assigning a primitive value to
  \<^verbatim>\<open>__proto__\<close> creates no property.
\<close>

definition assignProp :: "string \<Rightarrow> jsval \<Rightarrow> (string \<times> jsval) list \<Rightarrow> (string \<times> jsval) list" where
  "assignProp k v obj = (if k = ''__proto__'' then obj else setProp k v obj)"

text \<open>What a handler does: it shows the toast and returns, or it posts the answers.\<close>

datatype action = NoAnswersToast | PostResolveReview "(string \<times> jsval) list"

definition isFilled :: "jsval \<Rightarrow> bool" where
  "isFilled v = (v \<noteq> Str [] \<and> v \<noteq> Null \<and> v \<noteq> Undefined)"

definition fillAnswers :: "(string \<times> jsval) list \<Rightarrow> (string \<times> jsval) list" where
  "fillAnswers answers =
     foldl (\<lambda>filledAnswers p. if isFilled (snd p) then assignProp (fst p) (snd p) filledAnswers
                               else filledAnswers)
       [] (objectEntries answers)"

definition handleSubmitReview :: "(string \<times> jsval) list \<Rightarrow> (string \<times> jsval) list \<Rightarrow> action" where
  "handleSubmitReview invoice answers =
     (let filledAnswers = fillAnswers answers;
          filledAnswers' =
            (if hasProp ''vat_inclusive'' filledAnswers \<and> truthy (getProp ''amount'' invoice)
             then setProp ''amount'' (getProp ''amount'' invoice) filledAnswers
             else filledAnswers)
      in if length (map fst (objectEntries filledAnswers')) = 0 then NoAnswersToast
         else PostResolveReview filledAnswers')"

definition handleSkipReview :: action where
  "handleSkipReview = PostResolveReview []"

section \<open>The VAT resolver and the resolution of a review\<close>

text \<open>
  The backend that resolves a review (the VAT Resolver, the Validator and the
  Resolution Merger) is not among the sources, which hold only its caller, the review
  page. This section follows the specification.
\<close>

text \<open>
  Modelled from the spec: the monetary rounding of the absent VAT Resolver, half-up to
  2 decimal places.
\<close>

definition round2 :: "rat \<Rightarrow> rat" where
  "round2 x = of_int \<lfloor>x * 100 + 1 / 2\<rfloor> / 100"

text \<open>
  Modelled from the spec: the kinds of deficiency that the absent Validator finds, a
  low confidence naming its field.
\<close>

datatype deficiency =
  MissingVendor | MissingAmount | MissingDate | VATAmbiguous | LowConfidence string
  | UnresolvedCategory

text \<open>
  Modelled from the spec: the Document Record that the absent backend keeps, with the
  fields that the resolution reads and writes; \<open>doc_low_confidence\<close> holds the names of
  the fields that the extractor flagged, and \<open>doc_review_questions\<close> one deficiency for
  each question.
\<close>

record Document =
  doc_vendor :: "string option"
  doc_date :: "string option"
  doc_amount :: "rat option"
  doc_tax_amount :: "rat option"
  doc_vat_inclusive :: "bool option"
  doc_category :: "string option"
  doc_low_confidence :: "string list"
  doc_status :: invoice_status
  doc_review_questions :: "deficiency list"

text \<open>
  Modelled from the spec: the VAT Resolver, absent from the sources. Its four rules
  in their order: (1) a tax amount that is consistent with the amount under either
  interpretation within 0.01 is left as it is, and the flag is set if it was unknown;
  (2) without a tax amount and with the flag explicitly false,
  \<open>tax = round2 (amount * rate)\<close>; (3) with the flag explicitly true the amount is gross,
  it becomes \<open>net = round2 (amount / (1 + rate))\<close>, and \<open>tax = amount - net\<close>; (4) otherwise
  nothing is guessed, and the Validator asks.
\<close>

definition vat_resolver :: "rat \<Rightarrow> Document \<Rightarrow> Document" where
  "vat_resolver rate r =
     (case doc_amount r of
        None \<Rightarrow> r
      | Some a \<Rightarrow>
          if (case doc_tax_amount r of None \<Rightarrow> False
              | Some t \<Rightarrow> \<bar>t - round2 (a * rate)\<bar> \<le> 1 / 100)
          then (if doc_vat_inclusive r = None then r\<lparr>doc_vat_inclusive := Some False\<rparr> else r)
          else if (case doc_tax_amount r of None \<Rightarrow> False
                   | Some t \<Rightarrow> \<bar>t - (a - round2 (a / (1 + rate)))\<bar> \<le> 1 / 100)
          then (if doc_vat_inclusive r = None then r\<lparr>doc_vat_inclusive := Some True\<rparr> else r)
          else if doc_tax_amount r = None \<and> doc_vat_inclusive r = Some False
          then r\<lparr>doc_tax_amount := Some (round2 (a * rate))\<rparr>
          else if doc_vat_inclusive r = Some True
          then (let net = round2 (a / (1 + rate))
                in r\<lparr>doc_amount := Some net, doc_tax_amount := Some (a - net)\<rparr>)
          else r)"

text \<open>
  Modelled from the spec: the Validator, absent from the sources. The deficiencies in
  priority order: the missing required fields, the VAT ambiguity (an amount with
  neither tax amount nor flag), the fields of low confidence, the unresolved
  category.
\<close>

definition deficiencies :: "Document \<Rightarrow> deficiency list" where
  "deficiencies r =
     (if doc_vendor r = None then [MissingVendor] else [])
     @ (if doc_amount r = None then [MissingAmount] else [])
     @ (if doc_date r = None then [MissingDate] else [])
     @ (if doc_amount r \<noteq> None \<and> doc_tax_amount r = None \<and> doc_vat_inclusive r = None
        then [VATAmbiguous] else [])
     @ map LowConfidence (doc_low_confidence r)
     @ (if doc_category r = None then [UnresolvedCategory] else [])"

text \<open>
  Modelled from the spec: the result of the absent Validator: the status is ok and
  there are no questions when there is no deficiency, otherwise the record needs review
  and has one question for each deficiency.
\<close>

definition validator :: "Document \<Rightarrow> Document" where
  "validator r =
     (let ds = deficiencies r
      in r\<lparr>doc_status := (if ds = [] then Ok else NeedsReview), doc_review_questions := ds\<rparr>)"

text \<open>
  Modelled from the spec: the field that the question for a deficiency asks for, as the
  absent Review Question Generator names it.
\<close>

definition field_name :: "deficiency \<Rightarrow> string" where
  "field_name d =
     (case d of MissingVendor \<Rightarrow> ''vendor'' | MissingAmount \<Rightarrow> ''amount''
      | MissingDate \<Rightarrow> ''date'' | VATAmbiguous \<Rightarrow> ''vat_inclusive''
      | LowConfidence f \<Rightarrow> f | UnresolvedCategory \<Rightarrow> ''category'')"

text \<open>
  Modelled from the spec: the coercion and assignment of one answer by the
  Resolution Merger, absent from the sources: a number for the amount and the tax
  amount, a boolean or the texts true and false for the VAT flag, text otherwise. An
  answered field is no longer of low confidence.
\<close>

definition apply_answer :: "Document \<Rightarrow> string \<times> jsval \<Rightarrow> Document" where
  "apply_answer r p =
     (let f = fst p; v = snd p;
          r' = r\<lparr>doc_low_confidence := filter (\<lambda>g. g \<noteq> f) (doc_low_confidence r)\<rparr>
      in if f = ''amount'' then (case v of Num n \<Rightarrow> r'\<lparr>doc_amount := Some n\<rparr> | _ \<Rightarrow> r')
         else if f = ''tax_amount'' then (case v of Num n \<Rightarrow> r'\<lparr>doc_tax_amount := Some n\<rparr> | _ \<Rightarrow> r')
         else if f = ''vat_inclusive''
           then (case v of Bool b \<Rightarrow> r'\<lparr>doc_vat_inclusive := Some b\<rparr>
                 | Str s \<Rightarrow> (if s = ''true'' then r'\<lparr>doc_vat_inclusive := Some True\<rparr>
                             else if s = ''false'' then r'\<lparr>doc_vat_inclusive := Some False\<rparr>
                             else r')
                 | _ \<Rightarrow> r')
         else if f = ''vendor'' then (case v of Str s \<Rightarrow> r'\<lparr>doc_vendor := Some s\<rparr> | _ \<Rightarrow> r')
         else if f = ''date'' then (case v of Str s \<Rightarrow> r'\<lparr>doc_date := Some s\<rparr> | _ \<Rightarrow> r')
         else if f = ''category'' then (case v of Str s \<Rightarrow> r'\<lparr>doc_category := Some s\<rparr> | _ \<Rightarrow> r')
         else r')"

text \<open>
  Modelled from the spec: the error with which the absent Resolution Merger rejects an
  answer for a field that has no question.
\<close>

datatype resolve_error = ReviewAnswerInvalid

text \<open>
  Modelled from the spec: the operation \<open>resolve\<close> of the Resolution Merger, absent
  from the sources. The empty mapping approves the record as it is. An answer for a
  field that has no question is rejected, except the amount that comes with an answer
  for the VAT flag. The answers are assigned, the VAT Resolver runs with the rate of
  0.05, then the Validator.
\<close>

definition resolve :: "Document \<Rightarrow> (string \<times> jsval) list \<Rightarrow> resolve_error + Document" where
  "resolve r answers =
     (if answers = [] then Inr (r\<lparr>doc_status := Ok, doc_review_questions := []\<rparr>)
      else if list_ex (\<lambda>p. fst p \<notin> set (map field_name (doc_review_questions r))
                          \<and> \<not> (fst p = ''amount'' \<and> map_of answers ''vat_inclusive'' \<noteq> None))
                answers
        then Inl ReviewAnswerInvalid
      else Inr (validator (vat_resolver (5 / 100) (foldl apply_answer r answers))))"

section \<open>Notions of the specification and examples\<close>

text \<open>
  A record that the analyzer uses: a non-empty vendor, a date, and an amount that is
  neither null nor, as a Number, zero.
\<close>

definition usable :: "Invoice \<Rightarrow> bool" where
  "usable invoice =
     ((case vendor invoice of None \<Rightarrow> False | Some v \<Rightarrow> v \<noteq> [])
      \<and> date invoice \<noteq> None
      \<and> (case amount invoice of None \<Rightarrow> False | Some a \<Rightarrow> toNumber a \<noteq> Finite 0))"

text \<open>The usable records of the vendor with the normalized name \<open>k\<close>, in input order.\<close>

definition recordsOf :: "string \<Rightarrow> Invoice list \<Rightarrow> Invoice list" where
  "recordsOf k invoices = filter (\<lambda>invoice. usable invoice \<and> vendorKey invoice = k) invoices"

text \<open>The normalized vendor name of a candidate.\<close>

definition candidateKey :: "RecurringExpense \<Rightarrow> string" where
  "candidateKey c = trim (toLowerCase (re_vendor c))"

text \<open>The number of days from the calendar date of one invoice to that of another.\<close>

definition dayNumber :: "Invoice \<Rightarrow> int" where
  "dayNumber invoice = (case date invoice of None \<Rightarrow> 0 | Some (IsoDate y m d) \<Rightarrow> MakeDay y (m - 1) d)"

definition gapInDays :: "Invoice \<Rightarrow> Invoice \<Rightarrow> int" where
  "gapInDays a b = dayNumber b - dayNumber a"

text \<open>A candidate without its type label.\<close>

definition withoutType :: "RecurringExpense \<Rightarrow> RecurringExpense" where
  "withoutType c = c\<lparr>re_type := None\<rparr>"



text \<open>The calendar dates: month 1 to 12, day 1 to the length of the month.\<close>

definition daysInMonth :: "int \<Rightarrow> int \<Rightarrow> int" where
  "daysInMonth y m =
     (if m = 2 then (if DaysInYear y = 366 then 29 else 28)
      else if m = 4 \<or> m = 6 \<or> m = 9 \<or> m = 11 then 30 else 31)"


text \<open>
  The examples run in a zone four hours ahead of UTC, at 10:00 on 10 February 2024
  (\<open>feb_env\<close>) and at 10:00 on 10 March 2024 (\<open>mar_env\<close>).
\<close>

definition feb_env :: env where
  "feb_env = \<lparr> now = parseDate (IsoDate 2024 2 10) + 21600000, tza = 14400000 \<rparr>"

definition mar_env :: env where
  "mar_env = \<lparr> now = parseDate (IsoDate 2024 3 10) + 21600000, tza = 14400000 \<rparr>"

text \<open>A utility charged on the first of three consecutive months.\<close>

definition dewa_invoices :: "Invoice list" where
  "dewa_invoices =
     [mkInvoice 1 ''DEWA'' 100 (IsoDate 2023 11 1),
      mkInvoice 2 ''dewa '' 110 (IsoDate 2023 12 1),
      mkInvoice 3 ''Dewa'' 120 (IsoDate 2024 1 1)]"

text \<open>A vendor charged on the last day of December and of January.\<close>

definition acme_invoices :: "Invoice list" where
  "acme_invoices =
     [mkInvoice 4 ''Acme'' 100 (IsoDate 2023 12 31),
      mkInvoice 5 ''Acme'' 110 (IsoDate 2024 1 31)]"

text \<open>A vendor whose only two records, both on the first of a month, are 60 days apart.\<close>

definition gym_invoices :: "Invoice list" where
  "gym_invoices =
     [mkInvoice 6 ''Gym'' 200 (IsoDate 2024 1 1),
      mkInvoice 7 ''Gym'' 200 (IsoDate 2024 3 1)]"

text \<open>An excluded vendor with a perfect monthly pattern.\<close>

definition visa_invoices :: "Invoice list" where
  "visa_invoices =
     [mkInvoice 8 ''Visa Centre'' 300 (IsoDate 2023 11 5),
      mkInvoice 9 ''Visa Centre'' 300 (IsoDate 2023 12 5),
      mkInvoice 10 ''Visa Centre'' 300 (IsoDate 2024 1 5)]"

text \<open>Records that the analyzer passes over: no vendor, no date, an amount of zero.\<close>

definition unusable_invoices :: "Invoice list" where
  "unusable_invoices =
     [(mkInvoice 11 ''DEWA'' 100 (IsoDate 2023 10 1))\<lparr>vendor := None\<rparr>,
      (mkInvoice 12 ''DEWA'' 100 (IsoDate 2023 10 1))\<lparr>date := None\<rparr>,
      (mkInvoice 13 ''DEWA'' 0 (IsoDate 2023 10 1))]"




text \<open>The candidates that the examples yield at \<open>feb_env\<close>.\<close>

definition dewa_candidate :: RecurringExpense where
  "dewa_candidate =
     \<lparr> re_vendor = ''DEWA'', avgAmount = Finite 110, dayOfMonth = 1, frequency = 3,
       lastDate = Some (IsoDate 2024 1 1), re_category = None,
       nextExpected = 1709236800000, re_type = Some ''utility'' \<rparr>"

definition acme_candidate :: RecurringExpense where
  "acme_candidate =
     \<lparr> re_vendor = ''Acme'', avgAmount = Finite 105, dayOfMonth = 31, frequency = 2,
       lastDate = Some (IsoDate 2024 1 31), re_category = None,
       nextExpected = 1709323200000, re_type = None \<rparr>"


text \<open>
  Modelled from the spec: the record of the specification's scenario for the absent
  backend: an amount of 1000 with neither tax amount nor VAT flag, every other field
  present, as the Validator leaves it.
\<close>

definition scenario_record :: Document where
  "scenario_record =
     validator \<lparr> doc_vendor = Some ''Acme'', doc_date = Some ''2024-03-01'',
                 doc_amount = Some 1000, doc_tax_amount = None, doc_vat_inclusive = None,
                 doc_category = Some ''Office Supplies'', doc_low_confidence = [],
                 doc_status = NeedsReview, doc_review_questions = [] \<rparr>"

section \<open>Properties of the review page\<close>

lemma length_objectEntries: "length (objectEntries obj) = length obj"
  by (simp add: objectEntries_def sum_length_filter_compl)

lemma set_objectEntries: "set (objectEntries obj) = set obj"
  by (auto simp: objectEntries_def)

lemma map_of_setProp: "map_of (setProp k v obj) = (map_of obj)(k \<mapsto> v)"
  by (induction obj) (auto simp: fun_eq_iff)

lemma set_setProp: "set (setProp k v obj) \<subseteq> insert (k, v) (set obj)"
  by (induction obj) (auto split: if_splits)

lemma setProp_not_Nil: "setProp k v obj \<noteq> []"
  by (cases obj) (auto split: if_splits)

lemma objectEntries_Nil_iff: "objectEntries obj = [] \<longleftrightarrow> obj = []"
  using length_objectEntries [of obj] by (metis length_0_conv)

lemma handleSubmitReview_cases:
  "handleSubmitReview invoice answers =
     (if hasProp ''vat_inclusive'' (fillAnswers answers) \<and> truthy (getProp ''amount'' invoice)
      then PostResolveReview (setProp ''amount'' (getProp ''amount'' invoice) (fillAnswers answers))
      else if fillAnswers answers = [] then NoAnswersToast
      else PostResolveReview (fillAnswers answers))"
  by (simp add: handleSubmitReview_def Let_def objectEntries_Nil_iff setProp_not_Nil)

lemma setProp_filled:
  "list_all (\<lambda>p. isFilled (snd p)) acc \<Longrightarrow> isFilled v \<Longrightarrow>
   list_all (\<lambda>p. isFilled (snd p)) (setProp k v acc)"
  by (induction acc) auto

lemma fill_step_filled:
  "list_all (\<lambda>p. isFilled (snd p)) acc \<Longrightarrow>
   list_all (\<lambda>p. isFilled (snd p))
     (foldl (\<lambda>filledAnswers p. if isFilled (snd p)
        then assignProp (fst p) (snd p) filledAnswers else filledAnswers) acc xs)"
proof (induction xs arbitrary: acc)
  case Nil
  then show ?case by simp
next
  case (Cons x xs)
  have "list_all (\<lambda>p. isFilled (snd p))
          (if isFilled (snd x) then assignProp (fst x) (snd x) acc else acc)"
    using Cons.prems setProp_filled [of acc "snd x" "fst x"] by (simp add: assignProp_def)
  from Cons.IH [OF this] show ?case by simp
qed

lemma fillAnswers_filled: "p \<in> set (fillAnswers answers) \<Longrightarrow> isFilled (snd p)"
  using fill_step_filled [of "[]" "objectEntries answers"]
  by (simp add: fillAnswers_def list_all_iff)

lemma truthy_filled: "truthy v \<Longrightarrow> isFilled v"
  by (cases v) (auto simp: truthy_def isFilled_def)

text \<open>
  Claim C10. The Submit Answers action never posts an empty answer mapping: the values
  that are the empty string, null or undefined are left out first, every posted value is
  none of these, and when no answer remains the handler shows the toast and posts
  nothing. The empty mapping, which approves the invoice as it is, is posted by the
  separate Approve as-is action only.
\<close>

theorem submit_review_never_empty:
  "handleSubmitReview invoice answers \<noteq> PostResolveReview []
   \<and> (\<forall>body. handleSubmitReview invoice answers = PostResolveReview body \<longrightarrow>
         (\<forall>p\<in>set body. snd p \<noteq> Str [] \<and> snd p \<noteq> Null \<and> snd p \<noteq> Undefined))
   \<and> (fillAnswers answers = [] \<longrightarrow> handleSubmitReview invoice answers = NoAnswersToast)
   \<and> handleSkipReview = PostResolveReview []"
proof (intro conjI allI impI)
  show "handleSubmitReview invoice answers \<noteq> PostResolveReview []"
    by (simp add: handleSubmitReview_cases setProp_not_Nil)
  show "handleSkipReview = PostResolveReview []"
    by (simp add: handleSkipReview_def)
  show "handleSubmitReview invoice answers = NoAnswersToast" if "fillAnswers answers = []"
    using that by (simp add: handleSubmitReview_cases hasProp_def)
  show "\<forall>p\<in>set body. snd p \<noteq> Str [] \<and> snd p \<noteq> Null \<and> snd p \<noteq> Undefined"
    if h: "handleSubmitReview invoice answers = PostResolveReview body" for body
  proof
    fix p assume p: "p \<in> set body"
    have "isFilled (snd p)"
    proof (cases "hasProp ''vat_inclusive'' (fillAnswers answers) \<and> truthy (getProp ''amount'' invoice)")
      case True
      then have "body = setProp ''amount'' (getProp ''amount'' invoice) (fillAnswers answers)"
        using h by (simp add: handleSubmitReview_cases)
      then have "p = (''amount'', getProp ''amount'' invoice) \<or> p \<in> set (fillAnswers answers)"
        using p set_setProp [of "''amount''" "getProp ''amount'' invoice" "fillAnswers answers"] by auto
      then show ?thesis
      proof
        assume "p = (''amount'', getProp ''amount'' invoice)"
        then show ?thesis using True truthy_filled by simp
      next
        assume "p \<in> set (fillAnswers answers)"
        then show ?thesis by (rule fillAnswers_filled)
      qed
    next
      case False
      then have "body = fillAnswers answers"
        using h by (simp add: handleSubmitReview_cases split: if_splits)
      then show ?thesis using p fillAnswers_filled by simp
    qed
    then show "snd p \<noteq> Str [] \<and> snd p \<noteq> Null \<and> snd p \<noteq> Undefined"
      by (simp add: isFilled_def)
  qed
qed

theorem submit_review_never_empty_witness:
  "handleSubmitReview [(''amount'', Num 1000)] [(''vat_inclusive'', Bool True), (''vendor'', Str [])]
     = PostResolveReview [(''vat_inclusive'', Bool True), (''amount'', Num 1000)]
   \<and> snd (''amount'', Num 1000) \<noteq> Str [] \<and> snd (''amount'', Num 1000) \<noteq> Null
   \<and> snd (''amount'', Num 1000) \<noteq> Undefined
   \<and> fillAnswers [(''vendor'', Str []), (''date'', Null)] = []
   \<and> handleSubmitReview [(''amount'', Num 1000)] [(''vendor'', Str []), (''date'', Null)]
       = NoAnswersToast"
proof -
  have a: "handleSubmitReview [(''amount'', Num 1000)] [(''vat_inclusive'', Bool True), (''vendor'', Str [])]
     = PostResolveReview [(''vat_inclusive'', Bool True), (''amount'', Num 1000)]"
    by code_simp
  have b: "fillAnswers [(''vendor'', Str []), (''date'', Null)] = []"
    by code_simp
  have m: "(''amount'', Num 1000) \<in> set [(''vat_inclusive'', Bool True), (''amount'', Num 1000)]"
    by simp
  from submit_review_never_empty
         [of "[(''amount'', Num 1000)]" "[(''vat_inclusive'', Bool True), (''vendor'', Str [])]"] a
  have "\<forall>p\<in>set [(''vat_inclusive'', Bool True), (''amount'', Num 1000)].
         snd p \<noteq> Str [] \<and> snd p \<noteq> Null \<and> snd p \<noteq> Undefined"
    by blast
  from this m have c: "snd (''amount'', Num 1000) \<noteq> Str [] \<and> snd (''amount'', Num 1000) \<noteq> Null
      \<and> snd (''amount'', Num 1000) \<noteq> Undefined"
    by (rule bspec)
  from submit_review_never_empty
         [of "[(''amount'', Num 1000)]" "[(''vendor'', Str []), (''date'', Null)]"] b
  have d: "handleSubmitReview [(''amount'', Num 1000)] [(''vendor'', Str []), (''date'', Null)]
       = NoAnswersToast"
    by blast
  from a b c d show ?thesis by blast
qed

text \<open>
  Claim C8, as amended. When the posted answers contain \<open>vat_inclusive\<close> and the amount of
  the invoice record is truthy (not null, not undefined, not 0, not the empty string), the
  posted mapping holds that amount of the record under \<open>amount\<close>.
\<close>

theorem submit_review_amount_with_vat:
  assumes "handleSubmitReview invoice answers = PostResolveReview body"
    and "hasProp ''vat_inclusive'' body"
    and "truthy (getProp ''amount'' invoice)"
  shows "map_of body ''amount'' = Some (getProp ''amount'' invoice)"
proof -
  have "hasProp ''vat_inclusive'' (fillAnswers answers)"
    using assms(1,2)
    by (auto simp: handleSubmitReview_cases hasProp_def map_of_setProp split: if_splits)
  then have "body = setProp ''amount'' (getProp ''amount'' invoice) (fillAnswers answers)"
    using assms(1,3) by (simp add: handleSubmitReview_cases)
  then show ?thesis by (simp add: map_of_setProp)
qed

theorem submit_review_amount_with_vat_witness:
  "map_of [(''vat_inclusive'', Bool True), (''amount'', Num 1000)] ''amount'' = Some (Num 1000)"
proof -
  have a: "handleSubmitReview [(''amount'', Num 1000)] [(''vat_inclusive'', Bool True), (''vendor'', Str [])]
     = PostResolveReview [(''vat_inclusive'', Bool True), (''amount'', Num 1000)]"
    by code_simp
  have b: "hasProp ''vat_inclusive'' [(''vat_inclusive'', Bool True), (''amount'', Num 1000)]"
    by code_simp
  have c: "truthy (getProp ''amount'' [(''amount'', Num 1000)])"
    by code_simp
  have d: "getProp ''amount'' [(''amount'', Num 1000)] = Num 1000"
    by code_simp
  from submit_review_amount_with_vat [OF a b c] d show ?thesis by simp
qed

text \<open>
  Claim C8 as stated fails for a record whose amount is 0: the answers are posted with
  \<open>vat_inclusive\<close> and without an amount.
\<close>

theorem submit_review_zero_amount_counterexample:
  "getProp ''amount'' [(''amount'', Num 0)] = Num 0
   \<and> handleSubmitReview [(''amount'', Num 0)] [(''vat_inclusive'', Bool True)]
       = PostResolveReview [(''vat_inclusive'', Bool True)]
   \<and> hasProp ''vat_inclusive'' [(''vat_inclusive'', Bool True)]
   \<and> \<not> hasProp ''amount'' [(''vat_inclusive'', Bool True)]"
proof -
  have a: "getProp ''amount'' [(''amount'', Num 0)] = Num 0" by (simp add: getProp_def)
  have b: "handleSubmitReview [(''amount'', Num 0)] [(''vat_inclusive'', Bool True)]
       = PostResolveReview [(''vat_inclusive'', Bool True)]" by code_simp
  have c: "hasProp ''vat_inclusive'' [(''vat_inclusive'', Bool True)]" by (simp add: hasProp_def)
  have d: "\<not> hasProp ''amount'' [(''vat_inclusive'', Bool True)]" by (simp add: hasProp_def)
  from a b c d show ?thesis by blast
qed


section \<open>Properties of the recurring expense analyzer\<close>

lemma skipped_iff_usable: "skipped invoice \<longleftrightarrow> \<not> usable invoice"
  by (auto simp: skipped_def usable_def split: option.splits)

lemma groupByVendor_filter_usable:
  "groupByVendor acc (filter usable invoices) = groupByVendor acc invoices"
  by (induction invoices arbitrary: acc) (simp_all add: skipped_iff_usable)

text \<open>
  Claim C9. The analyzer ignores every record whose vendor is null or empty, whose date
  is null or empty, or whose amount is null or 0: its result, a list of candidates or
  the error, is the result computed from the usable records alone.
\<close>

theorem analyze_ignores_unusable:
  "analyzeRecurringExpenses e invoices = analyzeRecurringExpenses e (filter usable invoices)"
  by (simp add: analyzeRecurringExpenses_def analyzeWith_def groupByVendor_filter_usable)

theorem analyze_ignores_unusable_witness:
  "analyzeRecurringExpenses feb_env (unusable_invoices @ dewa_invoices)
     = analyzeRecurringExpenses feb_env dewa_invoices"
proof -
  have "filter usable (unusable_invoices @ dewa_invoices) = dewa_invoices"
    by code_simp
  then show ?thesis
    using analyze_ignores_unusable [of feb_env "unusable_invoices @ dewa_invoices"] by simp
qed

lemma insort_key_map_commute:
  "(\<And>x. k (h x) = k x) \<Longrightarrow> map h (insort_key k x xs) = insort_key k (h x) (map h xs)"
  by (induction xs) simp_all

lemma sort_key_map_commute:
  "(\<And>x. k (h x) = k x) \<Longrightarrow> map h (sort_key k xs) = sort_key k (map h xs)"
  by (induction xs) (simp_all add: insort_key_map_commute)

lemma map_map_filter: "map h (List.map_filter F xs) = List.map_filter (\<lambda>x. map_option h (F x)) xs"
  by (induction xs) (simp_all add: List.map_filter_simps split: option.splits)

lemma analyzeVendor_label_only:
  "map_option withoutType (analyzeVendor f e entry) = map_option withoutType (analyzeVendor g e entry)"
  by (simp add: analyzeVendor_def Let_def withoutType_def split: option.splits prod.splits)

lemma analyzeWith_label_only:
  "map_sum id (map withoutType) (analyzeWith f e invoices)
     = map_sum id (map withoutType) (analyzeWith g e invoices)"
proof (cases "groupByVendor [] invoices")
  case (Inl err)
  then show ?thesis by (simp add: analyzeWith_def)
next
  case (Inr vis)
  have "map withoutType (sort_key nextExpected (List.map_filter (analyzeVendor f e) (objectEntries vis)))
      = sort_key nextExpected (List.map_filter (\<lambda>x. map_option withoutType (analyzeVendor f e x)) (objectEntries vis))" for f
    by (simp add: sort_key_map_commute withoutType_def map_map_filter)
  then show ?thesis using Inr
    by (simp add: analyzeWith_def analyzeVendor_label_only [of f e _ g])
qed

text \<open>
  Claim C6. The classification is a label only: with any function in the place of
  \<open>getExpenseType\<close> the analyzer emits the same candidates in the same order, equal in
  every field but the type label, and fails on the same inputs.
\<close>

theorem classification_label_only:
  "map_sum id (map withoutType) (analyzeWith typeOf e invoices)
     = map_sum id (map withoutType) (analyzeRecurringExpenses e invoices)"
  unfolding analyzeRecurringExpenses_def by (rule analyzeWith_label_only)

theorem classification_label_only_witness:
  "map_sum id (map withoutType) (analyzeWith (\<lambda>v c. Some ''other'') feb_env dewa_invoices)
     = Inr [dewa_candidate\<lparr>re_type := None\<rparr>]"
proof -
  have "map_sum id (map withoutType) (analyzeRecurringExpenses feb_env dewa_invoices)
     = Inr [dewa_candidate\<lparr>re_type := None\<rparr>]"
    by code_simp
  then show ?thesis
    using classification_label_only [of "\<lambda>v c. Some ''other''" feb_env dewa_invoices] by simp
qed

text \<open>
  Claim C5. The candidates are returned in ascending order of their next expected date:
  of two adjacent candidates the earlier one's date is not after the later one's.
\<close>

theorem analyze_sorted:
  assumes "analyzeRecurringExpenses e invoices = Inr out" and "Suc i < length out"
  shows "nextExpected (out ! i) \<le> nextExpected (out ! Suc i)"
proof -
  obtain xs where "out = sort_key nextExpected xs"
    using assms(1) by (auto simp: analyzeRecurringExpenses_def analyzeWith_def split: sum.splits)
  then have "sorted (map nextExpected out)" by simp
  then show ?thesis using assms(2)
    by (metis Suc_lessD le_simps(3) length_map less_imp_le_nat nth_map sorted_nth_mono lessI)
qed

theorem analyze_sorted_witness:
  "analyzeRecurringExpenses feb_env (acme_invoices @ dewa_invoices)
     = Inr [dewa_candidate, acme_candidate]
   \<and> nextExpected ([dewa_candidate, acme_candidate] ! 0)
       \<le> nextExpected ([dewa_candidate, acme_candidate] ! Suc 0)"
proof -
  have a: "analyzeRecurringExpenses feb_env (acme_invoices @ dewa_invoices)
     = Inr [dewa_candidate, acme_candidate]"
    by code_simp
  have b: "Suc 0 < length [dewa_candidate, acme_candidate]" by simp
  from analyze_sorted [OF a b] a show ?thesis by simp
qed

subsection \<open>Grouping\<close>

lemma map_of_pushTo:
  "map_of (pushTo k x acc)
     = (map_of acc)(k \<mapsto> (case map_of acc k of None \<Rightarrow> [] | Some xs \<Rightarrow> xs) @ [x])"
  by (induction acc) (auto simp: fun_eq_iff)

lemma map_fst_pushTo:
  "map fst (pushTo k x acc)
     = (if k \<in> set (map fst acc) then map fst acc else map fst acc @ [k])"
proof (induction acc)
  case Nil
  then show ?case by simp
next
  case (Cons p acc)
  obtain k' xs where p: "p = (k', xs)" by (cases p)
  show ?case
  proof (cases "k = k'")
    case True
    then show ?thesis by (simp add: p)
  next
    case False
    then show ?thesis using Cons.IH by (simp add: p)
  qed
qed

lemma distinct_pushTo: "distinct (map fst acc) \<Longrightarrow> distinct (map fst (pushTo k x acc))"
  by (simp add: map_fst_pushTo)

lemma groupByVendor_distinct:
  "distinct (map fst acc) \<Longrightarrow> groupByVendor acc invoices = Inr vis \<Longrightarrow> distinct (map fst vis)"
proof (induction invoices arbitrary: acc)
  case Nil
  then show ?case by simp
next
  case (Cons x xs)
  then show ?case
    by (auto split: if_splits intro: distinct_pushTo)
qed

lemma groupByVendor_lookup:
  "groupByVendor acc invoices = Inr vis \<Longrightarrow>
   (case map_of vis k of None \<Rightarrow> [] | Some xs \<Rightarrow> xs)
     = (case map_of acc k of None \<Rightarrow> [] | Some xs \<Rightarrow> xs) @ recordsOf k invoices"
proof (induction invoices arbitrary: acc)
  case Nil
  then show ?case by (simp add: recordsOf_def)
next
  case (Cons x xs)
  show ?case
  proof (cases "skipped x")
    case True
    then show ?thesis using Cons by (simp add: recordsOf_def skipped_iff_usable)
  next
    case False
    then have g: "groupByVendor (pushTo (vendorKey x) x acc) xs = Inr vis"
      using Cons.prems by (simp split: if_splits)
    show ?thesis
      using Cons.IH [OF g] False
      by (simp add: map_of_pushTo recordsOf_def skipped_iff_usable)
  qed
qed

lemma entry_records:
  assumes "groupByVendor [] invoices = Inr vis" and "(k, invs) \<in> set vis"
  shows "invs = recordsOf k invoices"
proof -
  have "distinct (map fst vis)" using groupByVendor_distinct [of "[]"] assms(1) by simp
  then have "map_of vis k = Some invs" using assms(2) by simp
  then show ?thesis using groupByVendor_lookup [OF assms(1), of k] by simp
qed

subsection \<open>One vendor\<close>

lemma analyzeVendor_Some:
  assumes "analyzeVendor f e (k, invs) = Some c"
  shows "2 \<le> length invs \<and> \<not> isExcluded (displayVendorOf k (sort_key dateTime invs))
     \<and> (\<exists>avgDay grp. selectedGroup e invs = Some (avgDay, grp) \<and> isMonthlyConsistent grp
          \<and> re_vendor c = displayVendorOf k (sort_key dateTime invs)
          \<and> avgAmount c = num_div (foldl num_add (Finite 0) (map amountOrZero grp))
                             (Finite (of_nat (length grp)))
          \<and> dayOfMonth c = avgDay \<and> frequency c = length grp \<and> lastDate c = date (last grp)
          \<and> nextExpected c = nextExpectedOf e avgDay)"
  using assms
  by (auto simp: analyzeVendor_def Let_def split: if_splits option.splits prod.splits)

lemma displayVendor_key:
  assumes "invs \<noteq> []" and "\<forall>i\<in>set invs. usable i \<and> vendorKey i = k"
  shows "trim (toLowerCase (displayVendorOf k (sort_key dateTime invs))) = k"
proof -
  have "sort_key dateTime invs \<noteq> []" using assms(1) by (metis length_0_conv length_sort)
  then obtain x xs where s: "sort_key dateTime invs = x # xs" by (cases "sort_key dateTime invs") auto
  have "x \<in> set invs" using s by (metis list.set_intros(1) set_sort)
  then have "usable x" "vendorKey x = k" using assms(2) by auto
  then show ?thesis
    by (auto simp: s displayVendorOf_def usable_def vendorKey_def split: option.splits)
qed

lemma set_map_filter_iff: "y \<in> set (List.map_filter F xs) \<longleftrightarrow> (\<exists>x\<in>set xs. F x = Some y)"
  by (induction xs) (auto simp: List.map_filter_simps split: option.splits)

lemma recordsOf_props: "i \<in> set (recordsOf k invoices) \<Longrightarrow> usable i \<and> vendorKey i = k"
  by (simp add: recordsOf_def)

lemma candidate_source:
  assumes "analyzeWith f e invoices = Inr out" and "c \<in> set out"
  shows "analyzeVendor f e (candidateKey c, recordsOf (candidateKey c) invoices) = Some c"
proof -
  obtain vis where vis: "groupByVendor [] invoices = Inr vis"
    and out: "out = sort_key nextExpected (List.map_filter (analyzeVendor f e) (objectEntries vis))"
    using assms(1) by (auto simp: analyzeWith_def split: sum.splits)
  from assms(2) out obtain entry where en: "entry \<in> set vis" and av: "analyzeVendor f e entry = Some c"
    by (auto simp: set_map_filter_iff set_objectEntries)
  obtain k invs where entry: "entry = (k, invs)" by (cases entry)
  have invs: "invs = recordsOf k invoices" using entry_records [OF vis] en entry by simp
  have len: "2 \<le> length invs" and rv: "re_vendor c = displayVendorOf k (sort_key dateTime invs)"
    using analyzeVendor_Some [of f e k invs c] av entry by auto
  have "invs \<noteq> []" using len by auto
  moreover have "\<forall>i\<in>set invs. usable i \<and> vendorKey i = k" using invs recordsOf_props by blast
  ultimately have "candidateKey c = k"
    using displayVendor_key [of invs k] rv by (simp add: candidateKey_def)
  then show ?thesis using av entry invs by simp
qed

subsection \<open>Dates\<close>

lemma dateTime_dayNumber: "dateTime i = dayNumber i * msPerDay"
  by (simp add: dateTime_def dayNumber_def MakeDate_def split: option.splits isodate.splits)

lemma daysDiff_gapInDays: "daysDiff a b = gapInDays a b"
proof -
  have "dateTime b - dateTime a = gapInDays a b * 86400000"
    by (simp add: dateTime_dayNumber gapInDays_def msPerDay_def algebra_simps)
  then show ?thesis by (simp add: daysDiff_def)
qed

lemma monthly_gaps:
  "isMonthlyConsistent grp \<Longrightarrow> Suc i < length grp \<Longrightarrow>
   25 \<le> daysDiff (grp ! i) (grp ! Suc i) \<and> daysDiff (grp ! i) (grp ! Suc i) \<le> 38"
proof (induction grp arbitrary: i rule: isMonthlyConsistent.induct)
  case (1 p c rest)
  then have ok: "\<not> (daysDiff p c < 25 \<or> daysDiff p c > 38)" and rec: "isMonthlyConsistent (c # rest)"
    by (auto split: if_splits)
  show ?case
  proof (cases i)
    case 0
    then show ?thesis using ok by simp
  next
    case (Suc j)
    then have "Suc j < length (c # rest)" using "1.prems"(2) by simp
    from "1.IH" [OF ok rec this] show ?thesis using Suc by simp
  qed
qed simp_all

lemma selectedGroup_sorted:
  assumes "selectedGroup e invs = Some (avgDay, grp)"
  shows "sorted (map dayNumber grp)"
proof -
  obtain g where "grp = sort_key dateTime g"
    using assms by (auto simp: selectedGroup_def split: list.splits prod.splits)
  then have "sorted (map dateTime grp)" by simp
  then have "sorted_wrt (\<lambda>a b. dateTime a \<le> dateTime b) grp" by (simp add: sorted_map)
  then have "sorted_wrt (\<lambda>a b. dayNumber a \<le> dayNumber b) grp"
    by (rule sorted_wrt_mono_rel [rotated]) (simp add: dateTime_dayNumber msPerDay_def)
  then show ?thesis by (simp add: sorted_map)
qed

lemma selectedGroup_two:
  assumes "selectedGroup e invs = Some (avgDay, grp)"
  shows "2 \<le> length grp"
proof -
  obtain g0 rest where v: "validGroupsOf (dayGroupsOf e (sort_key dateTime invs)) = (avgDay, g0) # rest"
    and grp: "grp = sort_key dateTime g0"
    using assms by (auto simp: selectedGroup_def split: list.splits prod.splits)
  have "(avgDay, g0) \<in> set (validGroupsOf (dayGroupsOf e (sort_key dateTime invs)))"
    by (simp add: v)
  then show ?thesis by (auto simp: validGroupsOf_def grp)
qed

lemma selectedGroup_largest:
  assumes "selectedGroup e invs = Some (avgDay, grp)"
    and "(d, g) \<in> set (dayGroupsOf e (sort_key dateTime invs))"
  shows "length g \<le> length grp"
proof -
  let ?D = "dayGroupsOf e (sort_key dateTime invs)"
  obtain g0 rest where v: "validGroupsOf ?D = (avgDay, g0) # rest"
    and grp: "grp = sort_key dateTime g0"
    using assms(1) by (auto simp: selectedGroup_def split: list.splits prod.splits)
  have "(avgDay, g0) \<in> set (validGroupsOf ?D)" by (simp add: v)
  then have l0: "2 \<le> length g0" by (auto simp: validGroupsOf_def)
  have "sorted (map (\<lambda>p. - int (length (snd p))) (validGroupsOf ?D))"
    by (simp add: validGroupsOf_def)
  then have rest: "\<forall>p\<in>set rest. length (snd p) \<le> length g0"
    by (simp add: v)
  have "length g \<le> length g0"
  proof (cases "2 \<le> length g")
    case True
    then have "(d, g) \<in> set (validGroupsOf ?D)" using assms(2) by (simp add: validGroupsOf_def)
    then have "(d, g) = (avgDay, g0) \<or> (d, g) \<in> set rest" by (simp add: v)
    then show ?thesis
    proof
      assume "(d, g) = (avgDay, g0)"
      then show ?thesis by simp
    next
      assume "(d, g) \<in> set rest"
      from bspec [OF rest this] show ?thesis by simp
    qed
  next
    case False
    then show ?thesis using l0 by simp
  qed
  then show ?thesis by (simp add: grp)
qed

text \<open>
  Claim C1. Take the usable records of one vendor and the group that the analyzer
  selects for it: a group of at least 2 records that no other day group of the vendor
  exceeds in size, in ascending date order. If two adjacent dates in it are fewer than
  25 or more than 38 days apart, the result holds no candidate of that vendor.
\<close>

theorem bad_gap_no_candidate:
  assumes "analyzeRecurringExpenses e invoices = Inr out"
    and "selectedGroup e (recordsOf k invoices) = Some (avgDay, grp)"
    and "Suc i < length grp"
    and "gapInDays (grp ! i) (grp ! Suc i) < 25 \<or> 38 < gapInDays (grp ! i) (grp ! Suc i)"
  shows "2 \<le> length grp
     \<and> (\<forall>p\<in>set (dayGroupsOf e (sort_key dateTime (recordsOf k invoices))).
           length (snd p) \<le> length grp)
     \<and> sorted (map dayNumber grp)
     \<and> (\<forall>c\<in>set out. candidateKey c \<noteq> k)"
proof (intro conjI)
  show "2 \<le> length grp" using assms(2) by (rule selectedGroup_two)
  show "\<forall>p\<in>set (dayGroupsOf e (sort_key dateTime (recordsOf k invoices))).
           length (snd p) \<le> length grp"
  proof
    fix p assume "p \<in> set (dayGroupsOf e (sort_key dateTime (recordsOf k invoices)))"
    then have "(fst p, snd p) \<in> set (dayGroupsOf e (sort_key dateTime (recordsOf k invoices)))"
      by simp
    with assms(2) show "length (snd p) \<le> length grp" by (rule selectedGroup_largest)
  qed
  show "sorted (map dayNumber grp)" using assms(2) by (rule selectedGroup_sorted)
  show "\<forall>c\<in>set out. candidateKey c \<noteq> k"
  proof
    fix c assume c: "c \<in> set out"
    show "candidateKey c \<noteq> k"
    proof
      assume k: "candidateKey c = k"
      have "analyzeVendor getExpenseType e (k, recordsOf k invoices) = Some c"
        using candidate_source [of getExpenseType e invoices out c] assms(1) c k
        by (simp add: analyzeRecurringExpenses_def)
      then have "isMonthlyConsistent grp"
        using analyzeVendor_Some [of getExpenseType e k "recordsOf k invoices" c] assms(2) by auto
      from monthly_gaps [OF this assms(3)] assms(4) show False
        by (simp add: daysDiff_gapInDays)
    qed
  qed
qed

theorem bad_gap_no_candidate_witness:
  "analyzeRecurringExpenses feb_env (gym_invoices @ dewa_invoices) = Inr [dewa_candidate]
   \<and> selectedGroup feb_env (recordsOf ''gym'' (gym_invoices @ dewa_invoices)) = Some (1, gym_invoices)
   \<and> gapInDays (gym_invoices ! 0) (gym_invoices ! Suc 0) = 60
   \<and> sorted (map dayNumber gym_invoices)
   \<and> candidateKey dewa_candidate \<noteq> ''gym''"
proof -
  have a: "analyzeRecurringExpenses feb_env (gym_invoices @ dewa_invoices) = Inr [dewa_candidate]"
    by code_simp
  have b: "selectedGroup feb_env (recordsOf ''gym'' (gym_invoices @ dewa_invoices))
             = Some (1, gym_invoices)"
    by code_simp
  have c: "Suc 0 < length gym_invoices" by code_simp
  have d: "gapInDays (gym_invoices ! 0) (gym_invoices ! Suc 0) = 60" by code_simp
  then have d': "gapInDays (gym_invoices ! 0) (gym_invoices ! Suc 0) < 25
      \<or> 38 < gapInDays (gym_invoices ! 0) (gym_invoices ! Suc 0)" by simp
  from bad_gap_no_candidate [OF a b c d']
  have "sorted (map dayNumber gym_invoices)" and "\<forall>c\<in>set [dewa_candidate]. candidateKey c \<noteq> ''gym''"
    by blast+
  then show ?thesis using a b d by simp
qed

subsection \<open>The selected group\<close>























subsection \<open>The calendar\<close>

















subsection \<open>Three consecutive months\<close>
















subsection \<open>Excluded vendors\<close>

lemma no_keyword_in_candidate:
  assumes "analyzeRecurringExpenses e invoices = Inr out" and "c \<in> set out"
  shows "(\<forall>kw\<in>set EXCLUDE_KEYWORDS. \<not> sublist kw (toLowerCase (re_vendor c)))
     \<and> \<not> sublist ''traffic'' (toLowerCase (re_vendor c))
     \<and> \<not> sublist ''visa'' (toLowerCase (re_vendor c))
     \<and> 2 \<le> length (recordsOf (candidateKey c) invoices)"
proof -
  let ?k = "candidateKey c"
  have av: "analyzeVendor getExpenseType e (?k, recordsOf ?k invoices) = Some c"
    using candidate_source [of getExpenseType e invoices out c] assms
    by (simp add: analyzeRecurringExpenses_def)
  from analyzeVendor_Some [OF av]
  have len: "2 \<le> length (recordsOf ?k invoices)"
    and ex: "\<not> isExcluded (displayVendorOf ?k (sort_key dateTime (recordsOf ?k invoices)))"
    and rv: "re_vendor c = displayVendorOf ?k (sort_key dateTime (recordsOf ?k invoices))"
    by auto
  from ex rv have all: "\<forall>kw\<in>set EXCLUDE_KEYWORDS. \<not> sublist kw (toLowerCase (re_vendor c))"
    by (simp add: isExcluded_def Let_def includesStr_def list_ex_iff)
  have "''traffic'' \<in> set EXCLUDE_KEYWORDS" "''visa'' \<in> set EXCLUDE_KEYWORDS"
    by (simp_all add: EXCLUDE_KEYWORDS_def)
  with all len show ?thesis by blast
qed

lemma sublist_dropWhile:
  "kw \<noteq> [] \<Longrightarrow> \<not> W (hd kw) \<Longrightarrow> sublist kw (dropWhile W s) \<longleftrightarrow> sublist kw s"
proof (induction s)
  case Nil
  then show ?case by simp
next
  case (Cons x xs)
  show ?case
  proof (cases "W x")
    case True
    have "\<not> prefix kw (x # xs)"
    proof
      assume "prefix kw (x # xs)"
      then have "hd kw = x" using Cons.prems(1) by (cases kw) auto
      then show False using True Cons.prems(2) by simp
    qed
    then show ?thesis using True Cons by (simp add: sublist_Cons_right)
  next
    case False
    then show ?thesis by simp
  qed
qed

lemma sublist_trim:
  assumes "kw \<noteq> []" and "\<not> isWhiteSpace (hd kw)" and "\<not> isWhiteSpace (last kw)"
  shows "sublist kw (trim s) \<longleftrightarrow> sublist kw s"
proof -
  have r: "rev kw \<noteq> []" "\<not> isWhiteSpace (hd (rev kw))"
    using assms(1,3) by (simp_all add: hd_rev)
  have "sublist kw (trim s) \<longleftrightarrow> sublist (rev kw) (dropWhile isWhiteSpace (rev (dropWhile isWhiteSpace s)))"
    by (simp add: trim_def sublist_rev_right)
  also have "\<dots> \<longleftrightarrow> sublist (rev kw) (rev (dropWhile isWhiteSpace s))"
    using r by (rule sublist_dropWhile)
  also have "\<dots> \<longleftrightarrow> sublist kw (dropWhile isWhiteSpace s)" by simp
  also have "\<dots> \<longleftrightarrow> sublist kw s" using assms(1,2) by (rule sublist_dropWhile)
  finally show ?thesis .
qed

lemma keywords_trimmed:
  "list_all (\<lambda>kw. kw \<noteq> [] \<and> \<not> isWhiteSpace (hd kw) \<and> \<not> isWhiteSpace (last kw)) EXCLUDE_KEYWORDS"
  by code_simp

lemma isExcluded_trim:
  "isExcluded v \<longleftrightarrow> (\<exists>kw\<in>set EXCLUDE_KEYWORDS. sublist kw (trim (toLowerCase v)))"
proof -
  have "\<forall>kw\<in>set EXCLUDE_KEYWORDS. sublist kw (trim (toLowerCase v)) = sublist kw (toLowerCase v)"
    using keywords_trimmed by (simp add: list_all_iff sublist_trim)
  then show ?thesis
    by (simp add: isExcluded_def Let_def includesStr_def list_ex_iff)
qed

lemma isExcluded_key:
  "trim (toLowerCase v) = trim (toLowerCase v') \<Longrightarrow> isExcluded v = isExcluded v'"
  by (simp add: isExcluded_trim)

lemma excluded_name_no_candidate:
  assumes "analyzeRecurringExpenses e invoices = Inr out" and "c \<in> set out"
    and "vendor r = Some v" and "kw \<in> set EXCLUDE_KEYWORDS" and "sublist kw (toLowerCase v)"
  shows "candidateKey c \<noteq> vendorKey r"
proof
  assume k: "candidateKey c = vendorKey r"
  have av: "analyzeVendor getExpenseType e (candidateKey c, recordsOf (candidateKey c) invoices) = Some c"
    using candidate_source [of getExpenseType e invoices out c] assms(1,2)
    by (simp add: analyzeRecurringExpenses_def)
  from analyzeVendor_Some [OF av] have "\<not> isExcluded (re_vendor c)" by auto
  moreover have "trim (toLowerCase (re_vendor c)) = trim (toLowerCase v)"
    using k assms(3) by (simp add: candidateKey_def vendorKey_def)
  ultimately have "\<not> isExcluded v" using isExcluded_key by blast
  then show False using assms(4,5)
    by (auto simp: isExcluded_def Let_def includesStr_def list_ex_iff)
qed

text \<open>
  Claim C2. The vendor name of a candidate contains no exclusion keyword, whatever the
  case of its letters, in particular neither traffic nor visa; its normalized name is
  not that of any vendor name containing such a keyword, so such a vendor never appears,
  even with a perfect monthly pattern; and its vendor has at least 2 usable records, so
  a vendor with fewer yields no candidate.
\<close>

theorem excluded_never_emitted:
  assumes "analyzeRecurringExpenses e invoices = Inr out" and "c \<in> set out"
  shows "(\<forall>kw\<in>set EXCLUDE_KEYWORDS. \<not> sublist kw (toLowerCase (re_vendor c)))
     \<and> \<not> sublist ''traffic'' (toLowerCase (re_vendor c))
     \<and> \<not> sublist ''visa'' (toLowerCase (re_vendor c))
     \<and> (\<forall>r v kw. vendor r = Some v \<and> kw \<in> set EXCLUDE_KEYWORDS \<and> sublist kw (toLowerCase v)
           \<longrightarrow> candidateKey c \<noteq> vendorKey r)
     \<and> 2 \<le> length (recordsOf (candidateKey c) invoices)"
  using no_keyword_in_candidate [OF assms] excluded_name_no_candidate [OF assms]
  by blast

theorem excluded_never_emitted_witness:
  "analyzeRecurringExpenses feb_env (visa_invoices @ dewa_invoices) = Inr [dewa_candidate]
   \<and> \<not> sublist ''visa'' (toLowerCase (re_vendor dewa_candidate))
   \<and> \<not> sublist ''traffic'' (toLowerCase (re_vendor dewa_candidate))
   \<and> candidateKey dewa_candidate \<noteq> vendorKey (visa_invoices ! 0)
   \<and> 2 \<le> length (recordsOf (candidateKey dewa_candidate) (visa_invoices @ dewa_invoices))"
proof -
  have a: "analyzeRecurringExpenses feb_env (visa_invoices @ dewa_invoices) = Inr [dewa_candidate]"
    by code_simp
  have m: "dewa_candidate \<in> set [dewa_candidate]" by simp
  note th = excluded_never_emitted [OF a m]
  have h: "vendor (visa_invoices ! 0) = Some ''Visa Centre''"
    "''visa'' \<in> set EXCLUDE_KEYWORDS" "sublist ''visa'' (toLowerCase ''Visa Centre'')"
    by code_simp+
  from th have "vendor (visa_invoices ! 0) = Some ''Visa Centre''
      \<and> ''visa'' \<in> set EXCLUDE_KEYWORDS \<and> sublist ''visa'' (toLowerCase ''Visa Centre'')
      \<longrightarrow> candidateKey dewa_candidate \<noteq> vendorKey (visa_invoices ! 0)"
    by blast
  with h have "candidateKey dewa_candidate \<noteq> vendorKey (visa_invoices ! 0)" by simp
  with th a show ?thesis by simp
qed

subsection \<open>The next expected date\<close>

text \<open>
  Claim C4, at an input where the code departs from it. The next expected date should
  be the candidate's day of the month in the current month or, when that has passed, in
  the next month. On 10 February 2024 the analyzer gives a vendor charged on the 31st
  the date 2 March 2024: it is after now, but February has no 31st, and
  \<^verbatim>\<open>new Date(year, month, 31)\<close> runs on into March.
\<close>

theorem next_expected_overflows_month:
  "analyzeRecurringExpenses feb_env acme_invoices = Inr [acme_candidate]
   \<and> dayOfMonth acme_candidate = 31
   \<and> getFullYear feb_env (now feb_env) = 2024
   \<and> getMonth feb_env (now feb_env) = 1
   \<and> getDate feb_env (now feb_env) = 10
   \<and> getFullYear feb_env (nextExpected acme_candidate) = 2024
   \<and> getMonth feb_env (nextExpected acme_candidate) = 2
   \<and> getDate feb_env (nextExpected acme_candidate) = 2
   \<and> now feb_env < nextExpected acme_candidate"
  by code_simp

section \<open>Properties of the resolution of a review\<close>

text \<open>
  Claim C7. For a gross amount \<open>G \<ge> 0\<close>, answering the question for the VAT flag of a
  record without tax amount with \<open>vat_inclusive = true\<close> and the amount \<open>G\<close> yields the
  amount \<open>round2 (G / 1.05)\<close> and a tax amount within 0.01 of \<open>G\<close> less that amount.
\<close>

theorem vat_inclusive_resolution:
  assumes "0 \<le> G" and "doc_tax_amount r = None"
    and "VATAmbiguous \<in> set (doc_review_questions r)"
  shows "\<exists>r' t. resolve r [(''vat_inclusive'', Bool True), (''amount'', Num G)] = Inr r'
           \<and> doc_amount r' = Some (round2 (G / (105 / 100)))
           \<and> doc_tax_amount r' = Some t
           \<and> \<bar>t - (G - round2 (G / (105 / 100)))\<bar> \<le> 1 / 100"
proof -
  have f: "''vat_inclusive'' \<in> field_name ` set (doc_review_questions r)"
    using assms(3) by (force simp: field_name_def)
  show ?thesis
    using f assms(2)
    by (simp add: resolve_def apply_answer_def vat_resolver_def validator_def Let_def)
qed

text \<open>
  The scenario of the specification: from an amount of 1000, the answers
  \<open>vat_inclusive = true\<close> and \<open>amount = 1000\<close> give the amount 952.38, the tax amount 47.62
  and the status ok.
\<close>

theorem vat_inclusive_resolution_witness:
  "resolve scenario_record [(''vat_inclusive'', Bool True), (''amount'', Num 1000)]
     = Inr (scenario_record\<lparr>doc_amount := Some (95238 / 100), doc_tax_amount := Some (4762 / 100),
              doc_vat_inclusive := Some True, doc_status := Ok, doc_review_questions := []\<rparr>)
   \<and> round2 (1000 / (105 / 100)) = 95238 / 100"
proof -
  have a: "resolve scenario_record [(''vat_inclusive'', Bool True), (''amount'', Num 1000)]
     = Inr (scenario_record\<lparr>doc_amount := Some (95238 / 100), doc_tax_amount := Some (4762 / 100),
              doc_vat_inclusive := Some True, doc_status := Ok, doc_review_questions := []\<rparr>)"
    by code_simp
  have h1: "(0::rat) \<le> 1000" by simp
  have h2: "doc_tax_amount scenario_record = None"
    by (simp add: scenario_record_def validator_def Let_def)
  have h3: "VATAmbiguous \<in> set (doc_review_questions scenario_record)"
    by (simp add: scenario_record_def validator_def deficiencies_def Let_def)
  from vat_inclusive_resolution [OF h1 h2 h3] a
  have "Some (95238 / 100) = Some (round2 (1000 / (105 / 100)))" by auto
  then show ?thesis using a by simp
qed

end
